theory Spec2Isabelle
  imports Complex_Main
begin

section \<open>JavaScript values\<close>

text \<open>
  The values that reach \<open>BooleanSet.js\<close> as arguments and as fields of its state are
  modelled by \<open>jsval\<close>: \<open>undefined\<close>, \<open>null\<close>, the booleans and the numbers. A finite
  number is a rational here (rounding of doubles plays no role in this file); the three
  special numbers are constructors of their own. Strings, symbols and foreign objects are
  outside the model.
\<close>

datatype jsnum = Fin rat | PosInf | NegInf | NaN

datatype jsval = JUndefined | JNull | JBool bool | JNum jsnum

text \<open>
  What a call can throw: a failed \<open>assert(...)\<close>, the use of an identifier that is bound
  nowhere, and \<open>new Error("Not implemented")\<close>.
\<close>

datatype error = AssertionError | ReferenceError | NotImplemented

text \<open>\<open>if (v)\<close>, \<open>v ? a : b\<close> and \<open>!v\<close>: the truth value of \<open>v\<close>.\<close>

fun truthy :: "jsval \<Rightarrow> bool" where
  "truthy JUndefined = False"
| "truthy JNull = False"
| "truthy (JBool b) = b"
| "truthy (JNum (Fin q)) = (q \<noteq> 0)"
| "truthy (JNum NaN) = False"
| "truthy (JNum PosInf) = True"
| "truthy (JNum NegInf) = True"

text \<open>\<open>typeof v === "boolean"\<close>.\<close>

fun typeof_boolean :: "jsval \<Rightarrow> bool" where
  "typeof_boolean (JBool b) = True"
| "typeof_boolean v = False"

text \<open>The conversion to a number that the relational operators apply to both operands.\<close>

fun ToNumber :: "jsval \<Rightarrow> jsnum" where
  "ToNumber JUndefined = NaN"
| "ToNumber JNull = Fin 0"
| "ToNumber (JBool b) = (if b then Fin 1 else Fin 0)"
| "ToNumber (JNum n) = n"

text \<open>\<open>a <= b\<close> on numbers: false as soon as one side is \<open>NaN\<close>.\<close>

fun num_le :: "jsnum \<Rightarrow> jsnum \<Rightarrow> bool" where
  "num_le NaN b = False"
| "num_le a NaN = False"
| "num_le NegInf b = True"
| "num_le a PosInf = True"
| "num_le PosInf b = False"
| "num_le a NegInf = False"
| "num_le (Fin x) (Fin y) = (x \<le> y)"

definition js_le :: "jsval \<Rightarrow> jsval \<Rightarrow> bool" where
  "js_le a b = num_le (ToNumber a) (ToNumber b)"

definition js_ge :: "jsval \<Rightarrow> jsval \<Rightarrow> bool" where
  "js_ge a b = num_le (ToNumber b) (ToNumber a)"

abbreviation zero :: jsval where
  "zero \<equiv> JNum (Fin 0)"

text \<open>
  Modelled from the spec: \<open>GenUtils.isInt\<close>, which \<open>BooleanSet.js\<close> imports from
  \<open>../utils/GenUtils\<close>, a file that is not among the sources. The spec rejects a
  "non-integer index", so \<open>isInt\<close> holds of the numbers with an integral value and of
  nothing else.
\<close>

fun isInt :: "jsval \<Rightarrow> bool" where
  "isInt (JNum (Fin q)) = (of_int \<lfloor>q\<rfloor> = q)"
| "isInt v = False"

text \<open>The test of \<open>get\<close> and \<open>set\<close>: \<open>GenUtils.isInt(idx) && idx >= 0\<close>.\<close>

definition valid_index :: "jsval \<Rightarrow> bool" where
  "valid_index idx = (isInt idx \<and> js_ge idx zero)"


section \<open>Objects and the store\<close>

text \<open>
  A \<open>BooleanSet\<close> holds a reference to its state object (\<open>getState\<close> hands the very
  object out, the constructor's comments speak of a state set "by reference"), and the state
  object holds a reference to the array of ranges, which \<open>set\<close> truncates in place. Both
  kinds of object therefore live in a store, addressed by numbers; an address below the
  store's counter is allocated. A range is an object with the fields \<open>start\<close> and \<open>end\<close>.
  A field that is absent reads as \<open>undefined\<close>, so \<open>delete\<close> of a field writes
  \<open>JUndefined\<close>.
\<close>

type_synonym addr = nat

record range =
  rstart :: jsval
  rend :: jsval

record state_obj =
  inverted :: jsval
  ranges :: addr

record heap =
  states :: "addr \<Rightarrow> state_obj"
  arrays :: "addr \<Rightarrow> range list"
  next_state :: addr
  next_array :: addr

text \<open>
  The instance itself: the field \<open>state\<close>, and the two properties that the methods touch
  on \<open>this\<close> directly, \<open>this.inverted\<close> (written by \<open>set\<close>) and \<open>this.flipped\<close> (read by
  \<open>length\<close>).
\<close>

record BooleanSet =
  state :: addr
  this_inverted :: jsval
  this_flipped :: jsval

definition new_array :: "heap \<Rightarrow> range list \<Rightarrow> addr \<times> heap" where
  "new_array h rs =
     (next_array h, h\<lparr>arrays := (arrays h)(next_array h := rs), next_array := Suc (next_array h)\<rparr>)"

definition new_state :: "heap \<Rightarrow> state_obj \<Rightarrow> addr \<times> heap" where
  "new_state h s =
     (next_state h, h\<lparr>states := (states h)(next_state h := s), next_state := Suc (next_state h)\<rparr>)"

text \<open>
  Modelled from the spec: \<open>GenUtils.copyProperties\<close>, also of the missing
  \<open>../utils/GenUtils\<close>. The constructor calls it to "deep copy state object if BooleanSet
  given", and the spec has \<open>copy\<close> deep-copy "the range collection and the flag": a new
  array with the same ranges and a new state object with the same flag that refers to it.
\<close>

definition copyProperties :: "heap \<Rightarrow> addr \<Rightarrow> addr \<times> heap" where
  "copyProperties h a =
     (let (ra, h1) = new_array h (arrays h (ranges (states h a)))
      in new_state h1 \<lparr>inverted = inverted (states h a), ranges = ra\<rparr>)"


section \<open>The class\<close>

definition getState :: "BooleanSet \<Rightarrow> addr" where
  "getState this = state this"

text \<open>
  \<open>_validateState\<close>. Its argument is a state object of the store, so the asserts that it is
  an object and that \<open>state.ranges\<close> is an array hold by typing; what remains is the assert
  on \<open>typeof state.inverted\<close> and the loop over the ranges.
\<close>

fun validate_ranges :: "range list \<Rightarrow> error + unit" where
  "validate_ranges [] = Inr ()"
| "validate_ranges (r # rs) =
     (if \<not> js_ge (rstart r) zero then Inl AssertionError
      else if \<not> js_ge (rend r) zero then Inl AssertionError
      else validate_ranges rs)"

definition validateState :: "heap \<Rightarrow> addr \<Rightarrow> error + unit" where
  "validateState h st =
     (if \<not> typeof_boolean (inverted (states h st)) then Inl AssertionError
      else validate_ranges (arrays h (ranges (states h st))))"

text \<open>
  \<open>_setState\<close>: validate, then \<open>this.state = state\<close>. The result is the reference that
  becomes \<open>this.state\<close>.
\<close>

definition setState :: "heap \<Rightarrow> addr \<Rightarrow> error + addr" where
  "setState h st = (case validateState h st of Inl e \<Rightarrow> Inl e | Inr u \<Rightarrow> Inr st)"

text \<open>
  The constructor's argument: another \<open>BooleanSet\<close>, a state object, or a value of
  \<open>jsval\<close> (no argument is \<open>undefined\<close>). The second branch passes the identifier
  \<open>state\<close> to \<open>_setState\<close>; the parameter is called \<open>stateOrObj\<close> and nothing binds
  \<open>state\<close>, so evaluating the argument throws. An object is truthy.
\<close>

datatype ctor_arg = ArgSet BooleanSet | ArgState addr | ArgVal jsval

definition BooleanSet_new :: "heap \<Rightarrow> ctor_arg \<Rightarrow> (error + BooleanSet) \<times> heap" where
  "BooleanSet_new h arg =
     (case arg of
        ArgSet other \<Rightarrow>
          (let (st, h1) = copyProperties h (getState other)
           in case setState h1 st of
                Inl e \<Rightarrow> (Inl e, h1)
              | Inr s \<Rightarrow> (Inr \<lparr>state = s, this_inverted = JUndefined, this_flipped = JUndefined\<rparr>, h1))
      | ArgState a \<Rightarrow> (Inl ReferenceError, h)
      | ArgVal v \<Rightarrow>
          (if truthy v then (Inl ReferenceError, h)
           else
             (let (ra, h1) = new_array h [];
                  (sa, h2) = new_state h1 \<lparr>inverted = JUndefined, ranges = ra\<rparr>
              in (Inr \<lparr>state = sa, this_inverted = JUndefined, this_flipped = JUndefined\<rparr>, h2))))"

definition copy :: "heap \<Rightarrow> BooleanSet \<Rightarrow> (error + BooleanSet) \<times> heap" where
  "copy h this = BooleanSet_new h (ArgSet this)"

text \<open>
  \<open>set(val, idx)\<close>. The branch for all indices deletes \<open>this.state.inverted\<close>, truncates
  the array of ranges, writes \<open>true\<close> to \<open>this.inverted\<close> (the instance, not its state)
  when \<open>val\<close> is true, and returns \<open>undefined\<close>.
\<close>

definition set_op :: "heap \<Rightarrow> BooleanSet \<Rightarrow> jsval \<Rightarrow> jsval \<Rightarrow> (error + jsval) \<times> heap \<times> BooleanSet" where
  "set_op h this val idx =
     (if \<not> typeof_boolean val then (Inl AssertionError, h, this)
      else if idx = JUndefined \<or> idx = JNull then
        (let h1 = h\<lparr>states := (states h)(state this := (states h (state this))\<lparr>inverted := JUndefined\<rparr>)\<rparr>;
             h2 = h1\<lparr>arrays := (arrays h1)(ranges (states h1 (state this)) := [])\<rparr>;
             this1 = (if truthy val then this\<lparr>this_inverted := JBool True\<rparr> else this)
         in (Inr JUndefined, h2, this1))
      else if \<not> (isInt idx \<and> js_ge idx zero) then (Inl AssertionError, h, this)
      else (Inl NotImplemented, h, this))"

definition clear :: "heap \<Rightarrow> BooleanSet \<Rightarrow> (error + jsval) \<times> heap \<times> BooleanSet" where
  "clear h this = set_op h this (JBool False) JUndefined"

definition setRange :: "heap \<Rightarrow> BooleanSet \<Rightarrow> jsval \<Rightarrow> jsval \<Rightarrow> jsval \<Rightarrow> error + jsval" where
  "setRange h this val start end = Inl NotImplemented"

definition flip :: "heap \<Rightarrow> BooleanSet \<Rightarrow> jsval \<Rightarrow> error + jsval" where
  "flip h this idx = Inl NotImplemented"

definition flipRange :: "heap \<Rightarrow> BooleanSet \<Rightarrow> jsval \<Rightarrow> jsval \<Rightarrow> error + jsval" where
  "flipRange h this start end = Inl NotImplemented"

text \<open>
  \<open>get(idx)\<close>. The loop compares each range with \<open>index\<close>, an identifier that is bound
  nowhere (the parameter is \<open>idx\<close>): reading it throws, in the first iteration, after
  \<open>range.start\<close> has been read.
\<close>

definition index :: "error + jsval" where
  "index = Inl ReferenceError"

fun inRange_loop :: "range list \<Rightarrow> error + bool" where
  "inRange_loop [] = Inr False"
| "inRange_loop (r # rs) =
     (case index of
        Inl e \<Rightarrow> Inl e
      | Inr i \<Rightarrow> if js_le (rstart r) i \<and> js_ge (rend r) i then Inr True else inRange_loop rs)"

definition get :: "heap \<Rightarrow> BooleanSet \<Rightarrow> jsval \<Rightarrow> error + jsval" where
  "get h this idx =
     (if \<not> (isInt idx \<and> js_ge idx zero) then Inl AssertionError
      else case inRange_loop (arrays h (ranges (states h (state this)))) of
             Inl e \<Rightarrow> Inl e
           | Inr inRange \<Rightarrow>
               Inr (if inRange then JBool (\<not> truthy (inverted (states h (state this))))
                    else inverted (states h (state this))))"

text \<open>\<open>getFirst(val, start = 0, end)\<close> and \<open>getLast(val, start, end)\<close>.\<close>

definition getFirst :: "heap \<Rightarrow> BooleanSet \<Rightarrow> jsval \<Rightarrow> jsval \<Rightarrow> jsval \<Rightarrow> error + jsval" where
  "getFirst h this val start end = Inl NotImplemented"

definition getLast :: "heap \<Rightarrow> BooleanSet \<Rightarrow> jsval \<Rightarrow> jsval \<Rightarrow> jsval \<Rightarrow> error + jsval" where
  "getLast h this val start end = Inl NotImplemented"

text \<open>
  \<open>allSet\<close> and \<open>anySet\<close> call \<open>this.getFirst\<close> and compare its result with \<open>null\<close>
  by \<open>===\<close> and \<open>!==\<close>. \<open>anySet\<close> declares \<open>start = 0\<close>: an \<open>undefined\<close> start is
  replaced by \<open>0\<close> before the call.
\<close>

definition allSet :: "heap \<Rightarrow> BooleanSet \<Rightarrow> jsval \<Rightarrow> jsval \<Rightarrow> jsval \<Rightarrow> error + jsval" where
  "allSet h this val start end =
     (if \<not> typeof_boolean val then Inl AssertionError
      else case getFirst h this (JBool (\<not> truthy val)) start end of
             Inl e \<Rightarrow> Inl e
           | Inr r \<Rightarrow> Inr (JBool (r = JNull)))"

definition anySet :: "heap \<Rightarrow> BooleanSet \<Rightarrow> jsval \<Rightarrow> jsval \<Rightarrow> jsval \<Rightarrow> error + jsval" where
  "anySet h this val start end =
     (if \<not> typeof_boolean val then Inl AssertionError
      else case getFirst h this val (if start = JUndefined then zero else start) end of
             Inl e \<Rightarrow> Inl e
           | Inr r \<Rightarrow> Inr (JBool (r \<noteq> JNull)))"

text \<open>
  \<open>length()\<close> is \<open>this.flipped ? getLast(false) : getLast(true)\<close>: both branches call
  \<open>getLast\<close> as a free identifier, not as a method of \<open>this\<close>, and no such identifier is
  bound.
\<close>

definition length_op :: "heap \<Rightarrow> BooleanSet \<Rightarrow> error + jsval" where
  "length_op h this = (if truthy (this_flipped this) then Inl ReferenceError else Inl ReferenceError)"

text \<open>
  \<open>toArray(start = 0, end = this.length())\<close>: the default of \<open>end\<close> is evaluated when
  \<open>end\<close> is \<open>undefined\<close>, before the body runs.
\<close>

definition toArray :: "heap \<Rightarrow> BooleanSet \<Rightarrow> jsval \<Rightarrow> jsval \<Rightarrow> error + jsval" where
  "toArray h this start end =
     (if end = JUndefined then
        (case length_op h this of Inl e \<Rightarrow> Inl e | Inr n \<Rightarrow> Inl NotImplemented)
      else Inl NotImplemented)"


section \<open>Calls from outside\<close>

text \<open>
  A call of a public method with its arguments (an argument that is left out is
  \<open>undefined\<close>), and its effect: the result or the error thrown, the store and the
  instance after the call. A method whose body writes nothing returns the store and the
  instance it was given.
\<close>

datatype call =
    Clear
  | Set jsval jsval
  | SetRange jsval jsval jsval
  | Flip jsval
  | FlipRange jsval jsval
  | Get jsval
  | GetFirst jsval jsval jsval
  | GetLast jsval jsval jsval
  | AllSet jsval jsval jsval
  | AnySet jsval jsval jsval
  | ToArray jsval jsval
  | Length

fun invoke :: "heap \<Rightarrow> BooleanSet \<Rightarrow> call \<Rightarrow> (error + jsval) \<times> heap \<times> BooleanSet" where
  "invoke h this Clear = clear h this"
| "invoke h this (Set val idx) = set_op h this val idx"
| "invoke h this (SetRange val start end) = (setRange h this val start end, h, this)"
| "invoke h this (Flip idx) = (flip h this idx, h, this)"
| "invoke h this (FlipRange start end) = (flipRange h this start end, h, this)"
| "invoke h this (Get idx) = (get h this idx, h, this)"
| "invoke h this (GetFirst val start end) = (getFirst h this val start end, h, this)"
| "invoke h this (GetLast val start end) = (getLast h this val start end, h, this)"
| "invoke h this (AllSet val start end) = (allSet h this val start end, h, this)"
| "invoke h this (AnySet val start end) = (anySet h this val start end, h, this)"
| "invoke h this (ToArray start end) = (toArray h this start end, h, this)"
| "invoke h this Length = (length_op h this, h, this)"

text \<open>
  A sequence of calls on one instance. A caller can catch what a call throws and go on, so
  the sequence continues after an error.
\<close>

fun run_calls :: "heap \<Rightarrow> BooleanSet \<Rightarrow> call list \<Rightarrow> heap \<times> BooleanSet" where
  "run_calls h this [] = (h, this)"
| "run_calls h this (c # cs) =
     (case invoke h this c of (r, h1, this1) \<Rightarrow> run_calls h1 this1 cs)"

text \<open>
  The invalid arguments of the spec's error taxonomy: a value that is not a boolean where
  the method takes a boolean, and an index that is not an integer \<open>\<ge> 0\<close>. The index of
  \<open>get\<close> is required. The other indices are optional and invalid only when given;
  \<open>set\<close> takes both \<open>undefined\<close> and \<open>null\<close> for "no index" (its guard is
  \<open>idx === undefined || idx === null\<close>).
\<close>

definition bad_index :: "jsval \<Rightarrow> bool" where
  "bad_index v = (v \<noteq> JUndefined \<and> \<not> valid_index v)"

fun invalid_args :: "call \<Rightarrow> bool" where
  "invalid_args Clear = False"
| "invalid_args (Set val idx) = (\<not> typeof_boolean val \<or> (idx \<noteq> JNull \<and> bad_index idx))"
| "invalid_args (SetRange val start end) = (\<not> typeof_boolean val \<or> bad_index start \<or> bad_index end)"
| "invalid_args (Flip idx) = bad_index idx"
| "invalid_args (FlipRange start end) = (bad_index start \<or> bad_index end)"
| "invalid_args (Get idx) = (\<not> valid_index idx)"
| "invalid_args (GetFirst val start end) = (\<not> typeof_boolean val \<or> bad_index start \<or> bad_index end)"
| "invalid_args (GetLast val start end) = (\<not> typeof_boolean val \<or> bad_index start \<or> bad_index end)"
| "invalid_args (AllSet val start end) = (\<not> typeof_boolean val \<or> bad_index start \<or> bad_index end)"
| "invalid_args (AnySet val start end) = (\<not> typeof_boolean val \<or> bad_index start \<or> bad_index end)"
| "invalid_args (ToArray start end) = (bad_index start \<or> bad_index end)"
| "invalid_args Length = False"


section \<open>The invariant of the spec\<close>

text \<open>
  The RangeCollection invariant in the spec's words, for comparison with what
  \<open>_validateState\<close> checks. A range is a closed interval of integers with
  \<open>0 \<le> start \<le> end\<close>, or with \<open>end = \<infinity>\<close> (taken to be the number \<open>Infinity\<close>). In a
  collection \<open>end\<^sub>1 + 1 < start\<^sub>2\<close> holds for every consecutive pair, which makes the
  starts strictly increasing and the ranges disjoint and not adjacent, and leaves room for
  an unbounded range in the last place only.
\<close>

definition spec_Range :: "range \<Rightarrow> bool" where
  "spec_Range r =
     (valid_index (rstart r) \<and>
      (rend r = JNum PosInf \<or> (valid_index (rend r) \<and> js_le (rstart r) (rend r))))"

fun spec_apart :: "range \<Rightarrow> range \<Rightarrow> bool" where
  "spec_apart \<lparr>rstart = s1, rend = JNum (Fin e1)\<rparr> \<lparr>rstart = JNum (Fin s2), rend = e2\<rparr> = (e1 + 1 < s2)"
| "spec_apart r1 r2 = False"

fun spec_RangeCollection :: "range list \<Rightarrow> bool" where
  "spec_RangeCollection [] = True"
| "spec_RangeCollection [r] = spec_Range r"
| "spec_RangeCollection (r1 # r2 # rs) =
     (spec_Range r1 \<and> spec_apart r1 r2 \<and> spec_RangeCollection (r2 # rs))"


section \<open>Example stores and the frame of a call\<close>

text \<open>
  The store that holds one state object, at address 0, with the flag \<open>v\<close> and the ranges
  \<open>rs\<close>, and the instance that refers to it: what
  \<open>S = new BooleanSet(); S.getState().inverted = v; S.getState().ranges.push(...rs)\<close>
  leaves behind. \<open>second_set\<close> is the instance that the next allocation in that store
  creates.
\<close>

definition one_state :: "jsval \<Rightarrow> range list \<Rightarrow> heap" where
  "one_state v rs =
     \<lparr>states = (\<lambda>a. \<lparr>inverted = v, ranges = 0\<rparr>), arrays = (\<lambda>a. rs),
      next_state = 1, next_array = 1\<rparr>"

definition first_set :: BooleanSet where
  "first_set = \<lparr>state = 0, this_inverted = JUndefined, this_flipped = JUndefined\<rparr>"

definition second_set :: BooleanSet where
  "second_set = \<lparr>state = 1, this_inverted = JUndefined, this_flipped = JUndefined\<rparr>"

definition rng :: "rat \<Rightarrow> rat \<Rightarrow> range" where
  "rng a b = \<lparr>rstart = JNum (Fin a), rend = JNum (Fin b)\<rparr>"

text \<open>
  What the calls on an instance may write between two stores: the instance's own state
  object and the array that this state object refers to, and the reference stays.
\<close>

definition frame :: "BooleanSet \<Rightarrow> heap \<Rightarrow> heap \<Rightarrow> bool" where
  "frame this h h' =
     (ranges (states h' (state this)) = ranges (states h (state this)) \<and>
      (\<forall>a. a \<noteq> state this \<longrightarrow> states h' a = states h a) \<and>
      (\<forall>b. b \<noteq> ranges (states h (state this)) \<longrightarrow> arrays h' b = arrays h b))"


section \<open>A new set\<close>

lemma BooleanSet_new_no_argument:
  "BooleanSet_new h (ArgVal JUndefined) =
     (Inr \<lparr>state = next_state h, this_inverted = JUndefined, this_flipped = JUndefined\<rparr>,
      h\<lparr>arrays := (arrays h)(next_array h := []), next_array := Suc (next_array h),
        states := (states h)(next_state h := \<lparr>inverted = JUndefined, ranges = next_array h\<rparr>),
        next_state := Suc (next_state h)\<rparr>)"
  by (simp add: BooleanSet_new_def new_array_def new_state_def)

text \<open>
  C1. The spec has \<open>get(i)\<close> return \<open>false\<close> on a set that was just constructed. The
  constructor creates the state without the field \<open>inverted\<close>, the loop of \<open>get\<close> finds
  no range, and \<open>get\<close> returns \<open>this.state.inverted\<close> as it is: in every store,
  \<open>new BooleanSet().get(0)\<close> is \<open>undefined\<close>, not the boolean \<open>false\<close>.
\<close>

theorem get_on_new_set_is_undefined:
  "\<exists>S h1. BooleanSet_new h (ArgVal JUndefined) = (Inr S, h1) \<and>
      get h1 S zero = Inr JUndefined \<and> get h1 S zero \<noteq> Inr (JBool False)"
  by (simp add: BooleanSet_new_no_argument get_def js_ge_def)

text \<open>
  C10. \<open>copy()\<close> on a set that was just constructed throws, and so does passing such a
  set to the constructor: the copied state has no boolean \<open>inverted\<close>, and
  \<open>_validateState\<close> asserts that it has one.
\<close>

theorem copy_of_new_set_throws:
  "\<exists>S h1. BooleanSet_new h (ArgVal JUndefined) = (Inr S, h1) \<and>
      fst (copy h1 S) = Inl AssertionError \<and>
      fst (BooleanSet_new h1 (ArgSet S)) = Inl AssertionError"
  by (simp add: BooleanSet_new_no_argument copy_def BooleanSet_new_def copyProperties_def
      new_array_def new_state_def setState_def validateState_def getState_def)

theorem copy_of_new_set_throws_witness:
  "\<exists>S h1. BooleanSet_new (one_state (JBool True) []) (ArgVal JUndefined) = (Inr S, h1) \<and>
      fst (copy h1 S) = Inl AssertionError \<and>
      fst (BooleanSet_new h1 (ArgSet S)) = Inl AssertionError"
  using copy_of_new_set_throws [where h = "one_state (JBool True) []"] by simp


section \<open>Setting all indices\<close>

text \<open>
  C2. The spec has \<open>set(val)\<close> without an index empty the ranges and set the state's
  flag to \<open>val\<close>. The ranges are emptied, and the flag of the state is deleted and never
  written again: for \<open>val = true\<close> the assignment goes to \<open>this.inverted\<close>, a property of
  the instance that no method reads. For every set and every boolean \<open>v\<close>, the state's
  \<open>inverted\<close> is \<open>undefined\<close> after \<open>set(v)\<close>.
\<close>

theorem set_all_leaves_flag_undefined:
  "case set_op h S (JBool v) JUndefined of (r, h2, S') \<Rightarrow>
     r = Inr JUndefined \<and>
     arrays h2 (ranges (states h2 (state S'))) = [] \<and>
     inverted (states h2 (state S')) = JUndefined \<and>
     this_inverted S' = (if v then JBool True else this_inverted S)"
  by (simp add: set_op_def Let_def)

text \<open>
  C3. The spec has \<open>get(i)\<close> return \<open>true\<close> and \<open>length()\<close> return \<open>0\<close> after
  \<open>set(true)\<close>. On every set, \<open>get(0)\<close> after \<open>set(true)\<close> returns \<open>undefined\<close>,
  and \<open>length()\<close> throws: it calls \<open>getLast\<close> as a free identifier.
\<close>

theorem set_true_then_get_and_length:
  "case set_op h S (JBool True) JUndefined of (r, h2, S') \<Rightarrow>
     get h2 S' zero = Inr JUndefined \<and> length_op h2 S' = Inl ReferenceError"
  by (simp add: set_op_def Let_def get_def js_ge_def length_op_def)


section \<open>Flipping and the bulk predicates\<close>




section \<open>Reading an index\<close>

text \<open>
  C9. With a valid index, \<open>get\<close> throws whenever the set stores a range (the loop reads
  the unbound identifier \<open>index\<close>) and returns the field \<open>state.inverted\<close> as it is when
  it stores none; so a boolean comes back only from a set without ranges, and it is that
  field.
\<close>

theorem get_throws_unless_no_ranges:
  "(valid_index idx \<and> arrays h (ranges (states h (state this))) \<noteq> [] \<longrightarrow>
      get h this idx = Inl ReferenceError) \<and>
   (valid_index idx \<and> arrays h (ranges (states h (state this))) = [] \<longrightarrow>
      get h this idx = Inr (inverted (states h (state this)))) \<and>
   (get h this idx = Inr (JBool b) \<longrightarrow>
      arrays h (ranges (states h (state this))) = [] \<and>
      inverted (states h (state this)) = JBool b)"
  by (cases "arrays h (ranges (states h (state this)))")
     (auto simp: get_def valid_index_def index_def)

theorem get_throws_unless_no_ranges_witness:
  "get (one_state (JBool False) [rng 5 10]) first_set (JNum (Fin 7)) = Inl ReferenceError \<and>
   get (one_state (JBool True) []) first_set (JNum (Fin 7)) = Inr (JBool True)"
proof -
  have v: "valid_index (JNum (Fin 7))"
    by (simp add: valid_index_def js_ge_def)
  have "arrays (one_state (JBool False) [rng 5 10])
          (ranges (states (one_state (JBool False) [rng 5 10]) (state first_set))) \<noteq> []"
    by (simp add: one_state_def)
  with v get_throws_unless_no_ranges
         [where idx = "JNum (Fin 7)" and h = "one_state (JBool False) [rng 5 10]" and this = first_set]
  have thrown: "get (one_state (JBool False) [rng 5 10]) first_set (JNum (Fin 7)) = Inl ReferenceError"
    by blast
  have "arrays (one_state (JBool True) [])
          (ranges (states (one_state (JBool True) []) (state first_set))) = []"
    by (simp add: one_state_def)
  with v get_throws_unless_no_ranges
         [where idx = "JNum (Fin 7)" and h = "one_state (JBool True) []" and this = first_set]
  have "get (one_state (JBool True) []) first_set (JNum (Fin 7)) =
          Inr (inverted (states (one_state (JBool True) []) (state first_set)))"
    by blast
  then have "get (one_state (JBool True) []) first_set (JNum (Fin 7)) = Inr (JBool True)"
    by (simp add: one_state_def)
  with thrown show ?thesis by simp
qed


section \<open>Invalid arguments\<close>

text \<open>
  C7. A call of a public method with an invalid argument throws, and the store and the
  instance after the call are the ones before it. (\<open>set\<close> and \<open>get\<close> assert on their
  arguments before they write; the other methods with arguments write nothing at all.)
\<close>

theorem invalid_argument_rejected_unchanged:
  "invalid_args c \<Longrightarrow> \<exists>e. invoke h this c = (Inl e, h, this)"
  by (cases c)
     (auto simp: set_op_def setRange_def flip_def flipRange_def get_def getFirst_def
        getLast_def allSet_def anySet_def toArray_def length_op_def valid_index_def
        bad_index_def)

theorem invalid_argument_rejected_unchanged_witness:
  "invalid_args (Set (JNum (Fin 1)) JUndefined) \<and>
   invalid_args (Set (JBool True) (JNum (Fin (- 1)))) \<and>
   invalid_args (Get (JNum (Fin (- 1)))) \<and>
   invalid_args (Get (JNum (Fin (1 / 2)))) \<and>
   (\<exists>e. invoke (one_state (JBool False) [rng 5 10]) first_set (Get (JNum (Fin (1 / 2)))) =
      (Inl e, one_state (JBool False) [rng 5 10], first_set)) \<and>
   (\<exists>e. invoke (one_state (JBool False) [rng 5 10]) first_set (Set (JNum (Fin 1)) JUndefined) =
      (Inl e, one_state (JBool False) [rng 5 10], first_set)) \<and>
   (\<exists>e. invoke (one_state (JBool False) [rng 5 10]) first_set (Set (JBool True) (JNum (Fin (- 1)))) =
      (Inl e, one_state (JBool False) [rng 5 10], first_set)) \<and>
   (\<exists>e. invoke (one_state (JBool False) [rng 5 10]) first_set (Get (JNum (Fin (- 1)))) =
      (Inl e, one_state (JBool False) [rng 5 10], first_set))"
proof -
  have a: "invalid_args (Set (JNum (Fin 1)) JUndefined)"
    by simp
  have b: "invalid_args (Set (JBool True) (JNum (Fin (- 1))))"
    by (simp add: bad_index_def valid_index_def js_ge_def)
  have c: "invalid_args (Get (JNum (Fin (- 1))))"
    by (simp add: valid_index_def js_ge_def)
  have d: "invalid_args (Get (JNum (Fin (1 / 2))))"
    by code_simp
  from a b c d
    invalid_argument_rejected_unchanged [OF a]
    invalid_argument_rejected_unchanged [OF b]
    invalid_argument_rejected_unchanged [OF c]
    invalid_argument_rejected_unchanged [OF d]
  show ?thesis by blast
qed


section \<open>Validation of a state\<close>

lemma validate_ranges_accepts_iff:
  "validate_ranges rs = Inr () \<longleftrightarrow>
     (\<forall>r \<in> set rs. js_ge (rstart r) zero \<and> js_ge (rend r) zero)"
  by (induction rs) auto

text \<open>
  C8, as the spec has it: a state whose ranges violate the RangeCollection invariant is
  rejected by the validation. The validation looks at each range alone: two overlapping
  ranges, an unsorted pair, an adjacent pair and an unbounded range that is not last all
  pass, and the constructor copies a set that holds overlapping ranges.
\<close>

theorem validateState_accepts_malformed:
  "\<not> spec_RangeCollection [rng 0 5, rng 3 8] \<and>
   validateState (one_state (JBool False) [rng 0 5, rng 3 8]) 0 = Inr () \<and>
   \<not> spec_RangeCollection [rng 7 9, rng 0 5] \<and>
   validateState (one_state (JBool False) [rng 7 9, rng 0 5]) 0 = Inr () \<and>
   \<not> spec_RangeCollection [rng 0 5, rng 6 8] \<and>
   validateState (one_state (JBool False) [rng 0 5, rng 6 8]) 0 = Inr () \<and>
   \<not> spec_RangeCollection [\<lparr>rstart = zero, rend = JNum PosInf\<rparr>, rng 3 8] \<and>
   validateState (one_state (JBool False) [\<lparr>rstart = zero, rend = JNum PosInf\<rparr>, rng 3 8]) 0 = Inr () \<and>
   fst (copy (one_state (JBool False) [rng 0 5, rng 3 8]) first_set) = Inr second_set"
  by (simp add: spec_Range_def valid_index_def js_ge_def js_le_def rng_def validateState_def
      one_state_def copy_def BooleanSet_new_def copyProperties_def new_array_def new_state_def
      setState_def getState_def first_set_def second_set_def)

text \<open>
  C8, amended: the validation accepts a state exactly when its \<open>inverted\<close> is a boolean
  and every range has \<open>start >= 0\<close> and \<open>end >= 0\<close>; it rejects every other state, and
  it does not compare one range with another.
\<close>

theorem validateState_accepts_iff:
  "validateState h st = Inr () \<longleftrightarrow>
     typeof_boolean (inverted (states h st)) \<and>
     (\<forall>r \<in> set (arrays h (ranges (states h st))). js_ge (rstart r) zero \<and> js_ge (rend r) zero)"
  by (simp add: validateState_def validate_ranges_accepts_iff)

theorem validateState_accepts_iff_witness:
  "validateState (one_state (JBool False) [rng 0 5, rng (- 3) 8]) 0 \<noteq> Inr () \<and>
   validateState (one_state JUndefined [rng 0 5]) 0 \<noteq> Inr () \<and>
   validateState (one_state (JBool True) [rng 0 5, rng 7 8]) 0 = Inr ()"
  using validateState_accepts_iff [where h = "one_state (JBool False) [rng 0 5, rng (- 3) 8]" and st = 0]
    validateState_accepts_iff [where h = "one_state JUndefined [rng 0 5]" and st = 0]
    validateState_accepts_iff [where h = "one_state (JBool True) [rng 0 5, rng 7 8]" and st = 0]
  by (simp add: one_state_def rng_def js_ge_def)


section \<open>Independence of a copy\<close>

lemma frame_refl: "frame this h h"
  by (simp add: frame_def)

lemma frame_trans: "frame this h h1 \<Longrightarrow> frame this h1 h2 \<Longrightarrow> frame this h h2"
  by (simp add: frame_def)

lemma set_op_frame:
  "set_op h this val idx = (r, h', this') \<Longrightarrow> state this' = state this \<and> frame this h h'"
  by (auto simp: set_op_def frame_def Let_def split: if_splits)

lemma invoke_frame:
  "invoke h this c = (r, h', this') \<Longrightarrow> state this' = state this \<and> frame this h h'"
  by (cases c) (auto simp: clear_def frame_refl dest: set_op_frame)

lemma run_calls_frame:
  "run_calls h this cs = (h', this') \<Longrightarrow> state this' = state this \<and> frame this h h'"
proof (induction cs arbitrary: h this)
  case Nil
  then show ?case by (simp add: frame_refl)
next
  case (Cons c cs)
  obtain r h1 this1 where inv: "invoke h this c = (r, h1, this1)"
    by (cases "invoke h this c") auto
  with Cons.prems have rest: "run_calls h1 this1 cs = (h', this')" by simp
  from invoke_frame [OF inv] have s1: "state this1 = state this" and f1: "frame this h h1"
    by simp_all
  from Cons.IH [OF rest] s1 have "state this' = state this" and "frame this h1 h'"
    by (simp_all add: frame_def)
  with f1 show ?case by (blast intro: frame_trans)
qed

lemma get_same:
  "states h' (state S) = states h (state S) \<Longrightarrow>
   arrays h' (ranges (states h (state S))) = arrays h (ranges (states h (state S))) \<Longrightarrow>
   get h' S i = get h S i"
  by (simp add: get_def split: sum.splits)

lemma copy_allocates:
  assumes "fst (copy h S) = Inr C"
  shows "state C = next_state h"
    and "ranges (states (snd (copy h S)) (next_state h)) = next_array h"
    and "a \<noteq> next_state h \<Longrightarrow> states (snd (copy h S)) a = states h a"
    and "b \<noteq> next_array h \<Longrightarrow> arrays (snd (copy h S)) b = arrays h b"
  using assms
  by (auto simp: copy_def BooleanSet_new_def copyProperties_def new_array_def new_state_def
      setState_def getState_def split: sum.splits)

text \<open>
  C6. Let \<open>S\<close> be a set of the store \<open>h\<close> (its state object and its array are allocated)
  whose \<open>copy()\<close> returns the set \<open>C\<close>. Whatever sequence of calls is made on \<open>C\<close>,
  \<open>get(i)\<close> on \<open>S\<close> gives afterwards what it gave before those calls, which is also what
  it gave before the copy was made.
\<close>

theorem copy_independent:
  assumes st: "state S < next_state h"
    and ar: "ranges (states h (state S)) < next_array h"
    and cp: "fst (copy h S) = Inr C"
  shows "get (fst (run_calls (snd (copy h S)) C cs)) S i = get (snd (copy h S)) S i \<and>
         get (snd (copy h S)) S i = get h S i"
proof -
  let ?h1 = "snd (copy h S)"
  obtain h2 C' where run: "run_calls ?h1 C cs = (h2, C')"
    by (cases "run_calls ?h1 C cs") auto
  from copy_allocates [OF cp] st ar
  have c1: "state C = next_state h"
    and c2: "ranges (states ?h1 (state C)) = next_array h"
    and c3: "states ?h1 (state S) = states h (state S)"
    and c4: "arrays ?h1 (ranges (states h (state S))) = arrays h (ranges (states h (state S)))"
    by simp_all
  from run_calls_frame [OF run] have fr: "frame C ?h1 h2" by simp
  from fr c1 st have s2: "states h2 (state S) = states ?h1 (state S)"
    by (simp add: frame_def)
  from fr c2 ar c3
  have a2: "arrays h2 (ranges (states ?h1 (state S))) = arrays ?h1 (ranges (states ?h1 (state S)))"
    by (simp add: frame_def)
  from s2 a2 have "get h2 S i = get ?h1 S i" by (rule get_same)
  moreover from c3 c4 have "get ?h1 S i = get h S i" by (rule get_same)
  ultimately show ?thesis using run by simp
qed

theorem copy_independent_witness:
  "state first_set < next_state (one_state (JBool False) []) \<and>
   ranges (states (one_state (JBool False) []) (state first_set)) < next_array (one_state (JBool False) []) \<and>
   fst (copy (one_state (JBool False) []) first_set) = Inr second_set \<and>
   get (fst (run_calls (snd (copy (one_state (JBool False) []) first_set)) second_set
               [Set (JBool True) JUndefined, Clear, Get zero])) first_set zero
     = Inr (JBool False)"
proof -
  let ?h = "one_state (JBool False) []"
  have a: "state first_set < next_state ?h"
    by (simp add: first_set_def one_state_def)
  have b: "ranges (states ?h (state first_set)) < next_array ?h"
    by (simp add: first_set_def one_state_def)
  have c: "fst (copy ?h first_set) = Inr second_set"
    by (simp add: copy_def BooleanSet_new_def copyProperties_def new_array_def new_state_def
        setState_def validateState_def getState_def first_set_def second_set_def one_state_def)
  have d: "get ?h first_set zero = Inr (JBool False)"
    by (simp add: get_def js_ge_def first_set_def one_state_def)
  from copy_independent [OF a b c, where cs = "[Set (JBool True) JUndefined, Clear, Get zero]" and i = zero]
    a b c d
  show ?thesis by simp
qed

end
